theory Spec2Isabelle
  imports Complex_Main "HOL-Library.Word" "HOL-Library.Product_Lexorder"
begin

unbundle bit_operations_syntax

section \<open>Kids Task Tracker: a shallow embedding of \<^verbatim>\<open>src/app.py\<close>\<close>

text \<open>
  The program is a tkinter application; every piece of domain logic sits in a widget
  callback. Each callback is embedded as a function of the data it reads (the entry
  fields, the in-memory document \<^verbatim>\<open>controller.data\<close>, the reading of
  \<^verbatim>\<open>datetime.now()\<close>) that returns the data it leaves behind. A
  \<^verbatim>\<open>messagebox.showerror\<close> followed by \<^verbatim>\<open>return\<close> and a raised
  exception are both values of the result. Widget construction, colours, blinking and
  page navigation are not modelled. \<^verbatim>\<open>save_data\<close> writes the whole document
  after every mutation; the document a command returns is the one written.
\<close>

subsection \<open>Python strings\<close>

text \<open>
  A \<^verbatim>\<open>str\<close> is modelled as a \<^typ>\<open>string\<close> whose characters are the code
  points U+0000 .. U+00FF, \<^term>\<open>of_char c\<close> being the code point. On this range the
  interpreter's tables are small enough to be written out in full:
  \<^verbatim>\<open>str.isdigit\<close> holds of the ten ASCII digits and of the superscript digits
  U+00B2, U+00B3 and U+00B9; \<^verbatim>\<open>str.lower\<close> adds 32 to A..Z and to
  U+00C0..U+00DE except U+00D7; the regular expression class \<^verbatim>\<open>\d\<close> (Unicode
  category Nd) holds of the ASCII digits only.
\<close>

definition isdigit_char :: "char \<Rightarrow> bool" where
  "isdigit_char c =
     (let n = (of_char c :: nat)
      in (48 \<le> n \<and> n \<le> 57) \<or> n = 178 \<or> n = 179 \<or> n = 185)"

definition isdigit :: "string \<Rightarrow> bool" where
  \<comment> \<open>\<^verbatim>\<open>s.isdigit()\<close>: false on the empty string.\<close>
  "isdigit s = (s \<noteq> [] \<and> list_all isdigit_char s)"

definition lower_char :: "char \<Rightarrow> char" where
  "lower_char c =
     (let n = (of_char c :: nat)
      in if (65 \<le> n \<and> n \<le> 90) \<or> (192 \<le> n \<and> n \<le> 222 \<and> n \<noteq> 215)
         then char_of (n + 32) else c)"

definition lower :: "string \<Rightarrow> string" where
  "lower s = map lower_char s"

definition re_digit :: "char \<Rightarrow> bool" where
  \<comment> \<open>\<^verbatim>\<open>\d\<close> of \<^verbatim>\<open>re\<close>, as \<^verbatim>\<open>_strptime\<close> uses it.\<close>
  "re_digit c = (48 \<le> (of_char c :: nat) \<and> (of_char c :: nat) \<le> 57)"

definition digit_val :: "char \<Rightarrow> nat" where
  "digit_val c = of_char c - 48"

definition digit_char :: "nat \<Rightarrow> char" where
  "digit_char n = ''0123456789'' ! n"

function str_nat :: "nat \<Rightarrow> string" where
  "str_nat n = (if n < 10 then [digit_char n] else str_nat (n div 10) @ [digit_char (n mod 10)])"
  by pat_completeness auto
termination
  by (relation "measure id") auto

definition str_int :: "int \<Rightarrow> string" where
  \<comment> \<open>\<^verbatim>\<open>str(i)\<close>, also what an f-string writes for an int.\<close>
  "str_int i = (if i < 0 then CHR ''-'' # str_nat (nat (- i)) else str_nat (nat i))"

definition utf8_encode :: "string \<Rightarrow> 8 word list" where
  \<comment> \<open>\<^verbatim>\<open>s.encode()\<close>: one byte below U+0080, two bytes up to U+00FF.\<close>
  "utf8_encode s =
     concat (map (\<lambda>c. let n = (of_char c :: nat)
                        in if n < 128 then [of_nat n]
                           else [of_nat (192 + n div 64), of_nat (128 + n mod 64)]) s)"

subsection \<open>The digest of \<^verbatim>\<open>hash_pin\<close>\<close>

text \<open>
  \<^verbatim>\<open>hashlib.sha256(b).hexdigest()\<close>, written out after FIPS 180-4: the message is
  padded to whole blocks of 64 bytes, each block is expanded to 64 words and run through
  64 rounds, and the eight words of the final state are printed as 64 lower-case
  hexadecimal digits. The round constants (the fractional parts of the cube roots of the
  first 64 primes) and the initial state (of the square roots of the first 8) are
  written in decimal.
\<close>

definition K256 :: "32 word list" where
  "K256 =
    [1116352408, 1899447441, 3049323471, 3921009573, 961987163, 1508970993, 2453635748,
     2870763221, 3624381080, 310598401, 607225278, 1426881987, 1925078388, 2162078206,
     2614888103, 3248222580, 3835390401, 4022224774, 264347078, 604807628, 770255983,
     1249150122, 1555081692, 1996064986, 2554220882, 2821834349, 2952996808,
     3210313671, 3336571891, 3584528711, 113926993, 338241895, 666307205, 773529912,
     1294757372, 1396182291, 1695183700, 1986661051, 2177026350, 2456956037,
     2730485921, 2820302411, 3259730800, 3345764771, 3516065817, 3600352804,
     4094571909, 275423344, 430227734, 506948616, 659060556, 883997877, 958139571,
     1322822218, 1537002063, 1747873779, 1955562222, 2024104815, 2227730452,
     2361852424, 2428436474, 2756734187, 3204031479, 3329325298]"

definition H256 :: "32 word list" where
  "H256 =
    [1779033703, 3144134277, 1013904242, 2773480762, 1359893119, 2600822924, 528734635,
     1541459225]"

definition Ch :: "32 word \<Rightarrow> 32 word \<Rightarrow> 32 word \<Rightarrow> 32 word" where
  "Ch x y z = (x AND y) XOR (NOT x AND z)"

definition Maj :: "32 word \<Rightarrow> 32 word \<Rightarrow> 32 word \<Rightarrow> 32 word" where
  "Maj x y z = (x AND y) XOR (x AND z) XOR (y AND z)"

definition bsig0 :: "32 word \<Rightarrow> 32 word" where
  "bsig0 x = word_rotr 2 x XOR word_rotr 13 x XOR word_rotr 22 x"

definition bsig1 :: "32 word \<Rightarrow> 32 word" where
  "bsig1 x = word_rotr 6 x XOR word_rotr 11 x XOR word_rotr 25 x"

definition ssig0 :: "32 word \<Rightarrow> 32 word" where
  "ssig0 x = word_rotr 7 x XOR word_rotr 18 x XOR drop_bit 3 x"

definition ssig1 :: "32 word \<Rightarrow> 32 word" where
  "ssig1 x = word_rotr 17 x XOR word_rotr 19 x XOR drop_bit 10 x"

definition be64 :: "nat \<Rightarrow> 8 word list" where
  \<comment> \<open>the bit length of the message, as eight bytes, most significant first\<close>
  "be64 n = map (\<lambda>i. ucast (drop_bit (8 * i) (of_nat n :: 64 word))) [7, 6, 5, 4, 3, 2, 1, 0]"

definition pad :: "8 word list \<Rightarrow> 8 word list" where
  "pad m = m @ [0x80] @ replicate ((119 - length m mod 64) mod 64) 0 @ be64 (8 * length m)"

fun be_words :: "8 word list \<Rightarrow> 32 word list" where
  "be_words (a # b # c # d # bs) =
     (push_bit 24 (ucast a) OR push_bit 16 (ucast b) OR push_bit 8 (ucast c) OR ucast d)
       # be_words bs"
| "be_words _ = []"

fun schedule :: "nat \<Rightarrow> 32 word list \<Rightarrow> 32 word list" where
  "schedule 0 ws = ws"
| "schedule (Suc n) ws =
     (let t = length ws
      in schedule n
           (ws @ [ssig1 (ws ! (t - 2)) + ws ! (t - 7) + ssig0 (ws ! (t - 15)) + ws ! (t - 16)]))"

type_synonym sha_state =
  "32 word \<times> 32 word \<times> 32 word \<times> 32 word \<times> 32 word \<times> 32 word \<times> 32 word \<times> 32 word"

fun round256 :: "sha_state \<Rightarrow> 32 word \<times> 32 word \<Rightarrow> sha_state" where
  "round256 (a, b, c, d, e, f, g, h) (k, w) =
     (let t1 = h + bsig1 e + Ch e f g + k + w;
          t2 = bsig0 a + Maj a b c
      in (t1 + t2, a, b, c, d + t1, e, f, g))"

fun compress :: "32 word list \<Rightarrow> 32 word list \<Rightarrow> 32 word list" where
  "compress [a, b, c, d, e, f, g, h] blk =
     (case foldl round256 (a, b, c, d, e, f, g, h) (zip K256 (schedule 48 blk)) of
        (a', b', c', d', e', f', g', h') \<Rightarrow>
          [a + a', b + b', c + c', d + d', e + e', f + f', g + g', h + h'])"
| "compress hs blk = hs"

fun chunks :: "nat \<Rightarrow> 32 word list \<Rightarrow> 32 word list list" where
  "chunks 0 ws = []"
| "chunks (Suc n) ws = take 16 ws # chunks n (drop 16 ws)"

definition sha256 :: "8 word list \<Rightarrow> 32 word list" where
  "sha256 m = (let ws = be_words (pad m) in foldl compress H256 (chunks (length ws div 16) ws))"

definition hex32 :: "32 word \<Rightarrow> string" where
  "hex32 w =
     map (\<lambda>i. ''0123456789abcdef'' ! unat (drop_bit (4 * i) w AND 0xF)) [7, 6, 5, 4, 3, 2, 1, 0]"

definition hexdigest :: "32 word list \<Rightarrow> string" where
  "hexdigest ws = concat (map hex32 ws)"

definition hash_pin :: "string \<Rightarrow> string" where
  "hash_pin p = hexdigest (sha256 (utf8_encode p))"

subsection \<open>Times of day and the clock\<close>

text \<open>
  A \<^verbatim>\<open>datetime.time\<close> without time zone is the tuple (hour, minute, second,
  microsecond); Python compares two of them as tuples, which is the lexicographic order
  on the product type.
\<close>

type_synonym time = "nat \<times> nat \<times> nat \<times> nat"

definition parse_minute :: "nat \<Rightarrow> string \<Rightarrow> time option" where
  \<comment> \<open>the group \<^verbatim>\<open>(?P<M>[0-5]\d|\d)\<close>, which must reach the end of the string\<close>
  "parse_minute h s =
     (case s of
        [m1] \<Rightarrow> if re_digit m1 then Some (h, digit_val m1, 0, 0) else None
      | [m1, m2] \<Rightarrow>
          if re_digit m1 \<and> digit_val m1 \<le> 5 \<and> re_digit m2
          then Some (h, 10 * digit_val m1 + digit_val m2, 0, 0) else None
      | _ \<Rightarrow> None)"

definition two_digit_hour :: "char \<Rightarrow> char \<Rightarrow> bool" where
  \<comment> \<open>the alternatives \<^verbatim>\<open>2[0-3]\<close> and \<^verbatim>\<open>[0-1]\d\<close> of the group H\<close>
  "two_digit_hour h1 h2 =
     ((h1 = CHR ''2'' \<and> re_digit h2 \<and> digit_val h2 \<le> 3) \<or>
      ((h1 = CHR ''0'' \<or> h1 = CHR ''1'') \<and> re_digit h2))"

definition strptime_HM :: "string \<Rightarrow> time option" where
  \<comment> \<open>\<^verbatim>\<open>datetime.strptime(s, "%H:%M").time()\<close>; \<^term>\<open>None\<close> is the ValueError.\<close>
  "strptime_HM s =
     (case s of
        h1 # c # rest \<Rightarrow>
          if c = CHR '':'' then (if re_digit h1 then parse_minute (digit_val h1) rest else None)
          else (case rest of
                  c' # rest' \<Rightarrow>
                    if c' = CHR '':'' \<and> two_digit_hour h1 c
                    then parse_minute (10 * digit_val h1 + digit_val c) rest' else None
                | [] \<Rightarrow> None)
      | _ \<Rightarrow> None)"

text \<open>
  One reading of \<^verbatim>\<open>datetime.now()\<close>, as the program observes it: the date
  rendered by \<^verbatim>\<open>strftime("%Y-%m-%d")\<close>, the weekday name of
  \<^verbatim>\<open>strftime("%A")\<close>, the time of day of \<^verbatim>\<open>.time()\<close> and the POSIX
  seconds of \<^verbatim>\<open>.timestamp()\<close>.
\<close>

record datetime =
  strftime_Ymd :: string
  strftime_A :: string
  time_of_day :: time
  timestamp :: real

definition py_int :: "real \<Rightarrow> int" where
  \<comment> \<open>\<^verbatim>\<open>int(x)\<close> of a float: truncation towards zero\<close>
  "py_int x = (if 0 \<le> x then \<lfloor>x\<rfloor> else \<lceil>x\<rceil>)"

subsection \<open>The document: users, children, tasks\<close>

text \<open>
  A task dictionary. The key \<^verbatim>\<open>completed_on\<close> may be missing from a task read
  from the file, so the field is optional; the ledger itself is a dictionary from date
  strings to booleans.
\<close>

record task =
  task_id :: string
  task_text :: string
  start_time :: string
  end_time :: string
  days :: "string list"
  completed_on :: "(string \<rightharpoonup> bool) option"

record child =
  name :: string
  gender :: string
  tasks :: "task list"

record user =
  pin :: string
  children :: "child list"

record settings =
  theme :: string
  last_logged_in_user :: "string option"

record document =
  users :: "string \<rightharpoonup> user"
  settings :: settings

datatype py_exception =
  KeyError | ValueError | JSONDecodeError | FileNotFoundError | PermissionError
  | UnicodeDecodeError

datatype failure =
  ShowError string  \<comment> \<open>\<^verbatim>\<open>messagebox.showerror("Error", msg); return\<close>\<close>
  | Raised py_exception

subsection \<open>The dashboard: recurrence, ledger, time window\<close>

definition popup_days :: "string list" where
  \<comment> \<open>\<^verbatim>\<open>self.days\<close> of the Add Task popup: the names \<^verbatim>\<open>strftime("%A")\<close> gives\<close>
  "popup_days =
     [''Monday'', ''Tuesday'', ''Wednesday'', ''Thursday'', ''Friday'', ''Saturday'', ''Sunday'']"

datatype state = TODO | ACTIVE | OVERDUE | DONE

definition applies_today :: "datetime \<Rightarrow> task \<Rightarrow> bool" where
  \<comment> \<open>the negation of the \<^verbatim>\<open>continue\<close> test of \<^verbatim>\<open>populate_tasks_for_child\<close>\<close>
  "applies_today now t =
     (\<not> (''all'' \<notin> set (days t) \<and> strftime_A now \<notin> set (days t)))"

definition recurrence_descriptor :: "string list \<Rightarrow> bool" where
  \<comment> \<open>the recurrence descriptors of the data model, which are the lists that
      \<^verbatim>\<open>AddTaskPopup.save\<close> stores: the all-days sentinel, or a non-empty
      selection of weekday names\<close>
  "recurrence_descriptor ds = (ds = [''all''] \<or> (ds \<noteq> [] \<and> set ds \<subseteq> set popup_days))"

definition ledger_get :: "task \<Rightarrow> string \<Rightarrow> bool" where
  \<comment> \<open>\<^verbatim>\<open>task.get("completed_on", {}).get(date, False)\<close>\<close>
  "ledger_get t d =
     (case completed_on t of
        None \<Rightarrow> False
      | Some m \<Rightarrow> (case m d of None \<Rightarrow> False | Some b \<Rightarrow> b))"

definition create_task_bubble :: "task \<Rightarrow> failure + (time \<times> time)" where
  \<comment> \<open>parses both times for the bubble's label; a time that does not parse raises\<close>
  "create_task_bubble t =
     (case strptime_HM (start_time t) of
        None \<Rightarrow> Inl (Raised ValueError)
      | Some s \<Rightarrow>
          (case strptime_HM (end_time t) of
             None \<Rightarrow> Inl (Raised ValueError)
           | Some e \<Rightarrow> Inr (s, e)))"

fun populate_tasks_for_child :: "datetime \<Rightarrow> task list \<Rightarrow> failure + (task list \<times> task list)" where
  "populate_tasks_for_child now [] = Inr ([], [])"
| "populate_tasks_for_child now (t # ts) =
     (if \<not> applies_today now t then populate_tasks_for_child now ts
      else (case create_task_bubble t of
              Inl e \<Rightarrow> Inl e
            | Inr _ \<Rightarrow>
                (case populate_tasks_for_child now ts of
                   Inl e \<Rightarrow> Inl e
                 | Inr (todo, completed) \<Rightarrow>
                     if ledger_get t (strftime_Ymd now) then Inr (todo, t # completed)
                     else Inr (t # todo, completed))))"

definition window_state :: "time \<Rightarrow> time \<Rightarrow> time \<Rightarrow> state" where
  \<comment> \<open>the colour chosen by \<^verbatim>\<open>update_tasks_loop\<close> for a task of the To-Do frame\<close>
  "window_state start end now =
     (if start \<le> now \<and> now < end then ACTIVE
      else if now \<ge> end then OVERDUE
      else TODO)"

definition task_state :: "datetime \<Rightarrow> task \<Rightarrow> failure + state option" where
  \<comment> \<open>what the dashboard shows of one task: nothing, the Completed frame, or the
      To-Do frame in the colour of its time window. (The colour is looked up by task
      id; this is the state of a task whose id no other task on the dashboard has.)\<close>
  "task_state now t =
     (if \<not> applies_today now t then Inr None
      else (case create_task_bubble t of
              Inl e \<Rightarrow> Inl e
            | Inr (s, e) \<Rightarrow>
                if ledger_get t (strftime_Ymd now) then Inr (Some DONE)
                else Inr (Some (window_state s e (time_of_day now)))))"

definition toggle_task_completion :: "datetime \<Rightarrow> task \<Rightarrow> task" where
  "toggle_task_completion now t =
     (let today_str = strftime_Ymd now;
          is_currently_completed = ledger_get t today_str;
          ledger = (case completed_on t of None \<Rightarrow> Map.empty | Some m \<Rightarrow> m)
      in t\<lparr>completed_on := Some (ledger(today_str \<mapsto> \<not> is_currently_completed))\<rparr>)"

subsection \<open>Registration and login\<close>

record controller =
  data :: document
  current_user :: "string option"

definition register :: "string \<Rightarrow> string \<Rightarrow> document \<Rightarrow> failure + document" where
  \<comment> \<open>\<^verbatim>\<open>RegistrationPage.register\<close>, from the two entry fields\<close>
  "register email_entry pin_entry d =
     (let email = lower email_entry
      in if email = [] \<or> pin_entry = [] then Inl (ShowError ''Email and PIN cannot be empty.'')
         else if length pin_entry \<noteq> 6 \<or> \<not> isdigit pin_entry
           then Inl (ShowError ''PIN must be exactly 6 digits.'')
         else if email \<in> dom (users d) then Inl (ShowError ''This email is already registered.'')
         else Inr (d\<lparr>users := (users d)(email \<mapsto> \<lparr>pin = hash_pin pin_entry, children = []\<rparr>)\<rparr>))"

definition login :: "string \<Rightarrow> string \<Rightarrow> controller \<Rightarrow> failure + controller" where
  \<comment> \<open>\<^verbatim>\<open>LoginPage.login\<close>; the result on success is the controller that shows the dashboard\<close>
  "login email_entry pin_entry ctl =
     (let email = lower email_entry
      in if email = [] \<or> pin_entry = [] then Inl (ShowError ''Email and PIN cannot be empty.'')
         else (case users (data ctl) email of
                 None \<Rightarrow> Inl (ShowError ''Invalid email or PIN.'')
               | Some user_data \<Rightarrow>
                   if pin user_data = hash_pin pin_entry
                   then Inr \<lparr>data = (data ctl)\<lparr>settings :=
                                 (settings (data ctl))\<lparr>last_logged_in_user := Some email\<rparr>\<rparr>,
                             current_user = Some email\<rparr>
                   else Inl (ShowError ''Invalid email or PIN.'')))"

subsection \<open>Loading the document\<close>

text \<open>
  What \<^verbatim>\<open>json.load\<close> returns (floats left out: no property below reads a number).
\<close>

datatype json =
  JNull | JBool bool | JInt int | JString string | JArray "json list"
  | JObject "(string \<times> json) list"

text \<open>
  The data file as \<^verbatim>\<open>load_data\<close> meets it: \<^verbatim>\<open>os.path.exists\<close> is false; or
  the file exists and \<^verbatim>\<open>open\<close> raises; or it opens and \<^verbatim>\<open>json.load\<close> raises
  (\<^verbatim>\<open>JSONDecodeError\<close> on text that is not JSON, \<^verbatim>\<open>UnicodeDecodeError\<close> on
  bytes that are not text); or \<^verbatim>\<open>json.load\<close> returns a value.
\<close>

datatype data_file =
  Missing | OpenRaises py_exception | LoadRaises py_exception | Loads json

definition empty_document :: json where
  "empty_document =
     JObject [(''users'', JObject []), (''settings'', JObject [(''theme'', JString ''light'')])]"

definition except_clause :: "py_exception \<Rightarrow> py_exception + json" where
  \<comment> \<open>\<^verbatim>\<open>except (json.JSONDecodeError, FileNotFoundError)\<close>; anything else propagates\<close>
  "except_clause e =
     (if e = JSONDecodeError \<or> e = FileNotFoundError then Inr empty_document else Inl e)"

definition load_data :: "data_file \<Rightarrow> py_exception + json" where
  "load_data f =
     (case f of
        Missing \<Rightarrow> Inr empty_document
      | OpenRaises e \<Rightarrow> except_clause e
      | LoadRaises e \<Rightarrow> except_clause e
      | Loads v \<Rightarrow> Inr v)"

definition is_object :: "json option \<Rightarrow> bool" where
  "is_object v = (case v of Some (JObject kvs) \<Rightarrow> True | _ \<Rightarrow> False)"

definition expected_structure :: "json \<Rightarrow> bool" where
  \<comment> \<open>the shape the program indexes the document by: an object whose
      \<^verbatim>\<open>users\<close> and \<^verbatim>\<open>settings\<close> are objects\<close>
  "expected_structure v =
     (case v of
        JObject kvs \<Rightarrow> is_object (map_of kvs ''users'') \<and> is_object (map_of kvs ''settings'')
      | _ \<Rightarrow> False)"

subsection \<open>Adding and removing tasks\<close>

text \<open>
  The fields of the Add Task popup. \<^verbatim>\<open>day_vars\<close> holds one boolean per name of
  \<^verbatim>\<open>self.days\<close>; \<^verbatim>\<open>child_name\<close> is the name the popup was opened for.
\<close>

record add_task_popup =
  child_name :: string
  task_text_entry :: string
  start_hour :: string
  start_min :: string
  end_hour :: string
  end_min :: string
  day_vars :: "string \<Rightarrow> bool"

definition selected_days :: "add_task_popup \<Rightarrow> string list" where
  "selected_days p = filter (day_vars p) popup_days"

definition new_task :: "datetime \<Rightarrow> add_task_popup \<Rightarrow> task" where
  "new_task now p =
     \<lparr>task_id = ''task_'' @ str_int (py_int (timestamp now)),
      task_text = task_text_entry p,
      start_time = start_hour p @ '':'' @ start_min p,
      end_time = end_hour p @ '':'' @ end_min p,
      days = (if length (selected_days p) = 7 then [''all''] else selected_days p),
      completed_on = Some Map.empty\<rparr>"

fun find_child :: "string \<Rightarrow> child list \<Rightarrow> nat option" where
  \<comment> \<open>\<^verbatim>\<open>next((c for c in children if c['name'] == nm), None)\<close>: the position of
      the dictionary it returns\<close>
  "find_child nm [] = None"
| "find_child nm (c # cs) = (if name c = nm then Some 0 else map_option Suc (find_child nm cs))"

definition lookup_user :: "controller \<Rightarrow> failure + (string \<times> user)" where
  \<comment> \<open>\<^verbatim>\<open>self.controller.data["users"][self.controller.current_user]\<close>\<close>
  "lookup_user ctl =
     (case current_user ctl of
        None \<Rightarrow> Inl (Raised KeyError)
      | Some u \<Rightarrow> (case users (data ctl) u of None \<Rightarrow> Inl (Raised KeyError) | Some ud \<Rightarrow> Inr (u, ud)))"

definition set_children :: "controller \<Rightarrow> string \<Rightarrow> user \<Rightarrow> child list \<Rightarrow> document" where
  "set_children ctl u ud cs = (data ctl)\<lparr>users := (users (data ctl))(u \<mapsto> ud\<lparr>children := cs\<rparr>)\<rparr>"

definition fields_filled :: "add_task_popup \<Rightarrow> bool" where
  \<comment> \<open>no entry and no spinbox of the popup is empty\<close>
  "fields_filled p =
     (task_text_entry p \<noteq> [] \<and> start_hour p \<noteq> [] \<and> start_min p \<noteq> []
      \<and> end_hour p \<noteq> [] \<and> end_min p \<noteq> [])"

definition save :: "datetime \<Rightarrow> controller \<Rightarrow> add_task_popup \<Rightarrow> failure + document" where
  \<comment> \<open>\<^verbatim>\<open>AddTaskPopup.save\<close>\<close>
  "save now ctl p =
     (if task_text_entry p = [] \<or> start_hour p = [] \<or> start_min p = [] \<or> end_hour p = []
         \<or> end_min p = []
      then Inl (ShowError ''All fields must be filled.'')
      else if selected_days p = [] then Inl (ShowError ''Please select at least one day.'')
      else (case lookup_user ctl of
              Inl e \<Rightarrow> Inl e
            | Inr (u, ud) \<Rightarrow>
                (case find_child (child_name p) (children ud) of
                   None \<Rightarrow> Inr (data ctl)
                 | Some i \<Rightarrow>
                     (let c = children ud ! i
                      in Inr (set_children ctl u ud
                                ((children ud)[i := c\<lparr>tasks := tasks c @ [new_task now p]\<rparr>]))))))"

definition remove_task :: "controller \<Rightarrow> string \<Rightarrow> task \<Rightarrow> failure + document" where
  \<comment> \<open>\<^verbatim>\<open>SettingsPage.remove_task\<close>; the second argument is the name the child
      selector shows\<close>
  "remove_task ctl selected_child_name task_to_remove =
     (case lookup_user ctl of
        Inl e \<Rightarrow> Inl e
      | Inr (u, ud) \<Rightarrow>
          (case find_child selected_child_name (children ud) of
             None \<Rightarrow> Inr (data ctl)
           | Some i \<Rightarrow>
               (let c = children ud ! i
                in if task_to_remove \<in> set (tasks c)
                   then Inr (set_children ctl u ud
                               ((children ud)[i := c\<lparr>tasks := remove1 task_to_remove (tasks c)\<rparr>]))
                   else Inr (data ctl))))"

text \<open>A sequence of Add Task popups, each saved at its own reading of the clock.\<close>

fun add_tasks :: "controller \<Rightarrow> (datetime \<times> add_task_popup) list \<Rightarrow> failure + controller" where
  "add_tasks ctl [] = Inr ctl"
| "add_tasks ctl ((now, p) # rest) =
     (case save now ctl p of Inl e \<Rightarrow> Inl e | Inr d \<Rightarrow> add_tasks (ctl\<lparr>data := d\<rparr>) rest)"

definition task_ids :: "failure + controller \<Rightarrow> string \<Rightarrow> string list list" where
  \<comment> \<open>the ids of the tasks of each child of a user, child by child\<close>
  "task_ids r u =
     (case r of
        Inl e \<Rightarrow> []
      | Inr ctl \<Rightarrow> (case users (data ctl) u of
                     None \<Rightarrow> []
                   | Some ud \<Rightarrow> map (\<lambda>c. map task_id (tasks c)) (children ud)))"

subsection \<open>Concrete inputs\<close>

text \<open>
  The scenario of the specification: the task ``Brush teeth'', 09:00 to 09:30 on Mondays,
  and readings of the clock on Monday 21 July 2025 and on the Tuesday after (the
  timestamps are those of the wall-clock times in UTC).
\<close>

definition brush_teeth :: task where
  "brush_teeth =
     \<lparr>task_id = ''task_1753000000'', task_text = ''Brush teeth'', start_time = ''09:00'',
      end_time = ''09:30'', days = [''Monday''], completed_on = Some Map.empty\<rparr>"

definition monday_0915 :: datetime where
  "monday_0915 = \<lparr>strftime_Ymd = ''2025-07-21'', strftime_A = ''Monday'',
                   time_of_day = (9, 15, 0, 0), timestamp = 1753089300\<rparr>"

definition monday_0931 :: datetime where
  "monday_0931 = \<lparr>strftime_Ymd = ''2025-07-21'', strftime_A = ''Monday'',
                   time_of_day = (9, 31, 0, 0), timestamp = 1753090260\<rparr>"

definition tuesday_0915 :: datetime where
  "tuesday_0915 = \<lparr>strftime_Ymd = ''2025-07-22'', strftime_A = ''Tuesday'',
                    time_of_day = (9, 15, 0, 0), timestamp = 1753175700\<rparr>"

definition monday_0930 :: datetime where
  "monday_0930 = \<lparr>strftime_Ymd = ''2025-07-21'', strftime_A = ''Monday'',
                   time_of_day = (9, 30, 0, 0), timestamp = 1753090200\<rparr>"

text \<open>A task for every day whose ledger key is missing, and one whose window is inverted.\<close>

definition read_book :: task where
  "read_book =
     \<lparr>task_id = ''task_1753000002'', task_text = ''Read a book'', start_time = ''18:00'',
      end_time = ''19:00'', days = [''all''], completed_on = None\<rparr>"

definition late_riser :: task where
  "late_riser =
     \<lparr>task_id = ''task_1753000001'', task_text = ''Tidy room'', start_time = ''10:00'',
      end_time = ''09:00'', days = [''all''], completed_on = Some Map.empty\<rparr>"

text \<open>
  A parent with three children, two of them called Sam, logged in; two filled popups for
  ``Sam''; two readings of the clock within one second; a PIN of six superscript twos.
\<close>

definition fresh_document :: document where
  "fresh_document =
     \<lparr>users = Map.empty, settings = \<lparr>theme = ''light'', last_logged_in_user = None\<rparr>\<rparr>"

definition alex :: child where
  "alex = \<lparr>name = ''Alex'', gender = ''female'', tasks = []\<rparr>"

definition sam :: child where
  "sam = \<lparr>name = ''Sam'', gender = ''male'', tasks = [brush_teeth]\<rparr>"

definition sam_again :: child where
  "sam_again = \<lparr>name = ''Sam'', gender = ''female'', tasks = [read_book, brush_teeth]\<rparr>"

definition parent :: user where
  "parent = \<lparr>pin = hash_pin ''123456'', children = [alex, sam, sam_again]\<rparr>"

definition session :: controller where
  "session = \<lparr>data = fresh_document\<lparr>users := [''a@b.com'' \<mapsto> parent]\<rparr>,
              current_user = Some ''a@b.com''\<rparr>"

definition brush_form :: add_task_popup where
  "brush_form =
     \<lparr>child_name = ''Sam'', task_text_entry = ''Brush teeth'', start_hour = ''09'',
      start_min = ''00'', end_hour = ''09'', end_min = ''30'',
      day_vars = (\<lambda>d. d = ''Monday'')\<rparr>"

definition wash_form :: add_task_popup where
  "wash_form =
     \<lparr>child_name = ''Sam'', task_text_entry = ''Wash hands'', start_hour = ''12'',
      start_min = ''00'', end_hour = ''12'', end_min = ''15'',
      day_vars = (\<lambda>d. True)\<rparr>"

definition monday_0915_early :: datetime where
  "monday_0915_early = \<lparr>strftime_Ymd = ''2025-07-21'', strftime_A = ''Monday'',
                         time_of_day = (9, 15, 0, 200000), timestamp = 17530893002 / 10\<rparr>"

definition monday_0915_late :: datetime where
  "monday_0915_late = \<lparr>strftime_Ymd = ''2025-07-21'', strftime_A = ''Monday'',
                        time_of_day = (9, 15, 0, 900000), timestamp = 17530893009 / 10\<rparr>"

definition registered :: document where
  "registered = fresh_document\<lparr>users := (users fresh_document)
      (''sam@example.com'' \<mapsto> \<lparr>pin = hash_pin ''123456'', children = []\<rparr>)\<rparr>"

text \<open>A store, as a data file may hold it, in which the digest of a user is that of the empty PIN.\<close>

definition blank_digest_session :: controller where
  "blank_digest_session =
     \<lparr>data = fresh_document\<lparr>users :=
        [''a@b.com'' \<mapsto>
           \<lparr>pin = ''e3b0c44298fc1c149afbf4c8996fb92427ae41e4649b934ca495991b7852b855'',
            children = []\<rparr>]\<rparr>,
      current_user = None\<rparr>"

definition superscript_pin :: string where
  "superscript_pin = [CHR 0xB2, CHR 0xB2, CHR 0xB2, CHR 0xB2, CHR 0xB2, CHR 0xB2]"

section \<open>Properties\<close>

subsection \<open>The completion ledger\<close>

lemma ledger_get_toggle_same:
  "ledger_get (toggle_task_completion now t) (strftime_Ymd now) = (\<not> ledger_get t (strftime_Ymd now))"
  by (simp add: toggle_task_completion_def ledger_get_def Let_def)

lemma ledger_get_toggle_other:
  "d \<noteq> strftime_Ymd now \<Longrightarrow> ledger_get (toggle_task_completion now t) d = ledger_get t d"
  by (simp add: toggle_task_completion_def ledger_get_def Let_def split: option.splits)

text \<open>
  Claim C2. Toggling flips the boolean of the ledger at today's date, an absent entry
  (or an absent ledger) being read as false, so that the first toggle stores true; a
  second toggle on the same date gives back the value the date had before.
\<close>

theorem toggle_flips_and_round_trips:
  assumes "strftime_Ymd now' = strftime_Ymd now"
  shows "ledger_get (toggle_task_completion now t) (strftime_Ymd now)
           = (\<not> ledger_get t (strftime_Ymd now))
    \<and> ((case completed_on t of None \<Rightarrow> None | Some m \<Rightarrow> m (strftime_Ymd now)) = None \<longrightarrow>
          (\<exists>m'. completed_on (toggle_task_completion now t) = Some m'
                \<and> m' (strftime_Ymd now) = Some True))
    \<and> ledger_get (toggle_task_completion now' (toggle_task_completion now t)) (strftime_Ymd now)
          = ledger_get t (strftime_Ymd now)"
proof -
  have flip: "ledger_get (toggle_task_completion now t) (strftime_Ymd now)
                = (\<not> ledger_get t (strftime_Ymd now))"
    by (rule ledger_get_toggle_same)
  have fresh: "(case completed_on t of None \<Rightarrow> None | Some m \<Rightarrow> m (strftime_Ymd now)) = None \<longrightarrow>
          (\<exists>m'. completed_on (toggle_task_completion now t) = Some m'
                \<and> m' (strftime_Ymd now) = Some True)"
    by (simp add: toggle_task_completion_def ledger_get_def Let_def split: option.splits)
  have "ledger_get (toggle_task_completion now' (toggle_task_completion now t)) (strftime_Ymd now')
          = (\<not> ledger_get (toggle_task_completion now t) (strftime_Ymd now'))"
    by (rule ledger_get_toggle_same)
  with assms flip
  have again: "ledger_get (toggle_task_completion now' (toggle_task_completion now t))
                 (strftime_Ymd now) = ledger_get t (strftime_Ymd now)"
    by simp
  from flip fresh again show ?thesis by blast
qed

theorem toggle_flips_and_round_trips_witness:
  "strftime_Ymd monday_0931 = strftime_Ymd monday_0915
   \<and> ledger_get brush_teeth ''2025-07-21'' = False
   \<and> ledger_get (toggle_task_completion monday_0915 brush_teeth) ''2025-07-21'' = True
   \<and> (\<exists>m'. completed_on (toggle_task_completion monday_0915 brush_teeth) = Some m'
          \<and> m' ''2025-07-21'' = Some True)
   \<and> ledger_get (toggle_task_completion monday_0931 (toggle_task_completion monday_0915 brush_teeth))
        ''2025-07-21'' = False"
  using toggle_flips_and_round_trips [of monday_0931 monday_0915 brush_teeth]
  by (simp add: monday_0931_def monday_0915_def brush_teeth_def ledger_get_def)

lemma toggle_fields:
  "task_id (toggle_task_completion now t) = task_id t"
  "task_text (toggle_task_completion now t) = task_text t"
  "start_time (toggle_task_completion now t) = start_time t"
  "end_time (toggle_task_completion now t) = end_time t"
  "days (toggle_task_completion now t) = days t"
  by (simp_all add: toggle_task_completion_def Let_def)

lemma toggle_entry_other:
  "d \<noteq> strftime_Ymd now \<Longrightarrow>
     (case completed_on (toggle_task_completion now t) of None \<Rightarrow> None | Some m \<Rightarrow> m d)
       = (case completed_on t of None \<Rightarrow> None | Some m \<Rightarrow> m d)"
  by (simp add: toggle_task_completion_def Let_def split: option.splits)

lemma create_task_bubble_toggle:
  "create_task_bubble (toggle_task_completion now t) = create_task_bubble t"
  unfolding create_task_bubble_def by (simp only: toggle_fields)

lemma applies_today_toggle:
  "applies_today now' (toggle_task_completion now t) = applies_today now' t"
  unfolding applies_today_def by (simp only: toggle_fields)

lemma task_state_toggle_other:
  assumes "strftime_Ymd now' \<noteq> strftime_Ymd now"
  shows "task_state now' (toggle_task_completion now t) = task_state now' t"
  unfolding task_state_def
  by (simp only: create_task_bubble_toggle applies_today_toggle ledger_get_toggle_other [OF assms])

lemmas strptime_defs =
  strptime_HM_def parse_minute_def two_digit_hour_def re_digit_def digit_val_def

text \<open>
  Claim C9. Toggling on one date leaves the ledger entry of every other date as it was,
  hence also what the dashboard shows of the task on that other date, and it leaves the
  task's id, text, start time, end time and days as they were.
\<close>

theorem toggle_is_date_scoped:
  assumes "d' \<noteq> strftime_Ymd now"
  shows "ledger_get (toggle_task_completion now t) d' = ledger_get t d'
    \<and> (case completed_on (toggle_task_completion now t) of None \<Rightarrow> None | Some m \<Rightarrow> m d')
         = (case completed_on t of None \<Rightarrow> None | Some m \<Rightarrow> m d')
    \<and> (\<forall>now'. strftime_Ymd now' = d' \<longrightarrow>
          task_state now' (toggle_task_completion now t) = task_state now' t)
    \<and> task_id (toggle_task_completion now t) = task_id t
    \<and> task_text (toggle_task_completion now t) = task_text t
    \<and> start_time (toggle_task_completion now t) = start_time t
    \<and> end_time (toggle_task_completion now t) = end_time t
    \<and> days (toggle_task_completion now t) = days t"
  using assms
  by (simp add: ledger_get_toggle_other toggle_entry_other toggle_fields task_state_toggle_other)

theorem toggle_is_date_scoped_witness:
  "''2025-07-22'' \<noteq> strftime_Ymd monday_0915
   \<and> strftime_Ymd tuesday_0915 = ''2025-07-22''
   \<and> task_state monday_0915 (toggle_task_completion monday_0915 read_book) = Inr (Some DONE)
   \<and> ledger_get (toggle_task_completion monday_0915 read_book) ''2025-07-22'' = False
   \<and> task_state tuesday_0915 (toggle_task_completion monday_0915 read_book) = Inr (Some TODO)
   \<and> start_time (toggle_task_completion monday_0915 read_book) = ''18:00''"
proof -
  have d: "''2025-07-22'' \<noteq> strftime_Ymd monday_0915"
    by (simp add: monday_0915_def)
  have tue: "strftime_Ymd tuesday_0915 = ''2025-07-22''"
    by (simp add: tuesday_0915_def)
  have before: "task_state tuesday_0915 read_book = Inr (Some TODO)"
    by (simp add: task_state_def applies_today_def create_task_bubble_def strptime_defs
          window_state_def ledger_get_def read_book_def tuesday_0915_def)
  have marked: "task_state monday_0915 (toggle_task_completion monday_0915 read_book) = Inr (Some DONE)"
    by (simp add: task_state_def applies_today_def create_task_bubble_def strptime_defs
          ledger_get_def toggle_task_completion_def read_book_def monday_0915_def)
  from toggle_is_date_scoped [OF d, of read_book] tue before marked d
  show ?thesis
    by (simp add: ledger_get_def read_book_def)
qed

subsection \<open>The lifecycle state\<close>

lemma window_state_not_DONE: "window_state s e n \<noteq> DONE"
  by (simp add: window_state_def)

lemma task_state_shown:
  assumes "applies_today now t" and "create_task_bubble t = Inr (s, e)"
  shows "ledger_get t (strftime_Ymd now) \<Longrightarrow> task_state now t = Inr (Some DONE)"
    and "\<not> ledger_get t (strftime_Ymd now) \<Longrightarrow>
           \<exists>st. task_state now t = Inr (Some st) \<and> st \<noteq> DONE"
  using assms by (simp_all add: task_state_def window_state_not_DONE)

text \<open>
  The state of a task and the two frames of the dashboard agree: the Completed frame
  holds the tasks whose state is DONE, the To-Do frame those with one of the other three
  states.
\<close>

lemma populate_partitions_by_state:
  "populate_tasks_for_child now ts = Inr (todo, completed) \<Longrightarrow>
     (x \<in> set completed \<longleftrightarrow> x \<in> set ts \<and> task_state now x = Inr (Some DONE))
     \<and> (x \<in> set todo \<longleftrightarrow>
          x \<in> set ts \<and> (\<exists>st. task_state now x = Inr (Some st) \<and> st \<noteq> DONE))"
proof (induction ts arbitrary: todo completed)
  case Nil
  then show ?case by simp
next
  case (Cons t ts)
  show ?case
  proof (cases "applies_today now t")
    case False
    then have "task_state now t = Inr None" by (simp add: task_state_def)
    with False Cons show ?thesis by auto
  next
    case True
    with Cons.prems obtain s e todo' completed' where
      bubble: "create_task_bubble t = Inr (s, e)" and
      rest: "populate_tasks_for_child now ts = Inr (todo', completed')" and
      shape: "(todo, completed) = (if ledger_get t (strftime_Ymd now) then (todo', t # completed')
               else (t # todo', completed'))"
      by (auto split: sum.splits if_splits prod.splits)
    note ih = Cons.IH [OF rest]
    show ?thesis
    proof (cases "ledger_get t (strftime_Ymd now)")
      case True
      from task_state_shown(1) [OF \<open>applies_today now t\<close> bubble True]
      have st: "task_state now t = Inr (Some DONE)" .
      from True shape have "todo = todo'" "completed = t # completed'" by simp_all
      with ih st show ?thesis by auto
    next
      case False
      from task_state_shown(2) [OF \<open>applies_today now t\<close> bubble False]
      obtain w where st: "task_state now t = Inr (Some w)" "w \<noteq> DONE" by blast
      from False shape have "todo = t # todo'" "completed = completed'" by simp_all
      with ih st show ?thesis by auto
    qed
  qed
qed

text \<open>
  Claim C1, as the program computes it. For a task that applies today and whose two
  times parse: a true ledger entry for today gives DONE whatever the time; otherwise a
  time of day in the half-open window from start to end gives ACTIVE, a time of day at or
  after the end gives OVERDUE, and a time of day before both the start and the end gives
  TODO. The three cases are exhaustive; when the start is not after the end, ``before
  both'' is ``before the start''.
\<close>

theorem task_state_lifecycle:
  assumes "applies_today now t"
    and "strptime_HM (start_time t) = Some s"
    and "strptime_HM (end_time t) = Some e"
  shows "(ledger_get t (strftime_Ymd now) \<longrightarrow> task_state now t = Inr (Some DONE))
    \<and> (\<not> ledger_get t (strftime_Ymd now) \<longrightarrow>
         (s \<le> time_of_day now \<and> time_of_day now < e \<longrightarrow> task_state now t = Inr (Some ACTIVE))
       \<and> (e \<le> time_of_day now \<longrightarrow> task_state now t = Inr (Some OVERDUE))
       \<and> (time_of_day now < s \<and> time_of_day now < e \<longrightarrow> task_state now t = Inr (Some TODO))
       \<and> (s \<le> e \<and> time_of_day now < s \<longrightarrow> task_state now t = Inr (Some TODO)))"
proof -
  from assms have st: "task_state now t =
      Inr (Some (if ledger_get t (strftime_Ymd now) then DONE
                 else window_state s e (time_of_day now)))"
    by (simp add: task_state_def create_task_bubble_def)
  show ?thesis
    unfolding st by (auto simp: window_state_def)
qed

theorem task_state_lifecycle_witness:
  "applies_today monday_0915 brush_teeth
   \<and> strptime_HM (start_time brush_teeth) = Some (9, 0, 0, 0)
   \<and> strptime_HM (end_time brush_teeth) = Some (9, 30, 0, 0)
   \<and> \<not> ledger_get brush_teeth (strftime_Ymd monday_0915)
   \<and> (9, 0, 0, 0) \<le> time_of_day monday_0915 \<and> time_of_day monday_0915 < (9, 30, 0, 0)
   \<and> task_state monday_0915 brush_teeth = Inr (Some ACTIVE)"
proof -
  have a: "applies_today monday_0915 brush_teeth"
    by (simp add: applies_today_def monday_0915_def brush_teeth_def)
  have s: "strptime_HM (start_time brush_teeth) = Some (9, 0, 0, 0)"
    by (simp add: brush_teeth_def strptime_defs)
  have e: "strptime_HM (end_time brush_teeth) = Some (9, 30, 0, 0)"
    by (simp add: brush_teeth_def strptime_defs)
  have l: "\<not> ledger_get brush_teeth (strftime_Ymd monday_0915)"
    by (simp add: ledger_get_def brush_teeth_def)
  have w: "(9, 0, 0, 0) \<le> time_of_day monday_0915 \<and> time_of_day monday_0915 < (9, 30, 0, 0)"
    by (simp add: monday_0915_def)
  from task_state_lifecycle [OF a s e] l w
  have "task_state monday_0915 brush_teeth = Inr (Some ACTIVE)" by blast
  with a s e l w show ?thesis by blast
qed

text \<open>
  The claim's clause ``before the start gives TODO'' fails for a window whose end is
  not after its start, which \<^verbatim>\<open>AddTaskPopup.save\<close> stores like any other: at 09:30
  the task from 10:00 to 09:00 is not completed and before its start, and OVERDUE.
\<close>

theorem inverted_window_is_overdue:
  "applies_today monday_0930 late_riser
   \<and> strptime_HM (start_time late_riser) = Some (10, 0, 0, 0)
   \<and> ledger_get late_riser (strftime_Ymd monday_0930) = False
   \<and> time_of_day monday_0930 < (10, 0, 0, 0)
   \<and> task_state monday_0930 late_riser = Inr (Some OVERDUE)"
  by (simp add: applies_today_def monday_0930_def late_riser_def strptime_defs ledger_get_def
        task_state_def create_task_bubble_def window_state_def)

subsection \<open>Recurrence\<close>

lemma populate_only_applying:
  "populate_tasks_for_child now ts = Inr (todo, completed) \<Longrightarrow>
     x \<in> set todo \<union> set completed \<Longrightarrow> applies_today now x \<and> x \<in> set ts"
proof (induction ts arbitrary: todo completed)
  case Nil
  then show ?case by simp
next
  case (Cons t ts)
  show ?case
  proof (cases "applies_today now t")
    case False
    with Cons show ?thesis by auto
  next
    case True
    with Cons.prems obtain todo' completed' where
      rest: "populate_tasks_for_child now ts = Inr (todo', completed')" and
      shape: "(todo, completed) = (if ledger_get t (strftime_Ymd now) then (todo', t # completed')
               else (t # todo', completed'))"
      by (auto split: sum.splits if_splits prod.splits)
    from shape Cons.prems(2) have "x = t \<or> x \<in> set todo' \<union> set completed'"
      by (auto split: if_splits)
    with True Cons.IH [OF rest] show ?thesis by auto
  qed
qed

text \<open>
  Claim C3. For a recurrence descriptor (the all-days sentinel or a selection of weekday
  names), the task applies today when the descriptor is the sentinel, and otherwise
  exactly when today's weekday name is in the descriptor. A task that does not apply
  today has no state today and is in neither list that
  \<^verbatim>\<open>populate_tasks_for_child\<close> builds, the To-Do one or the Completed one.
\<close>

theorem applies_today_recurrence:
  assumes "recurrence_descriptor (days t)"
  shows "(days t = [''all''] \<longrightarrow> applies_today now t)
    \<and> (days t \<noteq> [''all''] \<longrightarrow> (applies_today now t \<longleftrightarrow> strftime_A now \<in> set (days t)))
    \<and> (\<not> applies_today now t \<longrightarrow>
         task_state now t = Inr None
         \<and> (\<forall>ts todo completed. populate_tasks_for_child now ts = Inr (todo, completed) \<longrightarrow>
               t \<notin> set todo \<and> t \<notin> set completed))"
proof -
  have sentinel: "days t = [''all''] \<longrightarrow> applies_today now t"
    by (simp add: applies_today_def)
  have "days t \<noteq> [''all''] \<longrightarrow> ''all'' \<notin> set (days t)"
    using assms by (auto simp: recurrence_descriptor_def popup_days_def)
  then have weekday:
    "days t \<noteq> [''all''] \<longrightarrow> (applies_today now t \<longleftrightarrow> strftime_A now \<in> set (days t))"
    by (auto simp: applies_today_def)
  have excluded: "\<not> applies_today now t \<longrightarrow>
         task_state now t = Inr None
         \<and> (\<forall>ts todo completed. populate_tasks_for_child now ts = Inr (todo, completed) \<longrightarrow>
               t \<notin> set todo \<and> t \<notin> set completed)"
    using populate_only_applying [of now _ _ _ t] by (auto simp: task_state_def)
  from sentinel weekday excluded show ?thesis by blast
qed

theorem applies_today_recurrence_witness:
  "recurrence_descriptor (days brush_teeth) \<and> days brush_teeth \<noteq> [''all'']
   \<and> strftime_A monday_0915 \<in> set (days brush_teeth) \<and> applies_today monday_0915 brush_teeth
   \<and> strftime_A tuesday_0915 \<notin> set (days brush_teeth) \<and> \<not> applies_today tuesday_0915 brush_teeth
   \<and> task_state tuesday_0915 brush_teeth = Inr None
   \<and> populate_tasks_for_child tuesday_0915 [brush_teeth, read_book] = Inr ([read_book], [])
   \<and> brush_teeth \<notin> set [read_book]"
proof -
  have rd: "recurrence_descriptor (days brush_teeth)"
    by (simp add: recurrence_descriptor_def brush_teeth_def popup_days_def)
  have ne: "days brush_teeth \<noteq> [''all'']"
    by (simp add: brush_teeth_def)
  have mon: "strftime_A monday_0915 \<in> set (days brush_teeth)"
    by (simp add: brush_teeth_def monday_0915_def)
  have tue: "strftime_A tuesday_0915 \<notin> set (days brush_teeth)"
    by (simp add: brush_teeth_def tuesday_0915_def)
  have rb: "applies_today tuesday_0915 read_book"
    by (simp add: applies_today_def read_book_def)
  have bubble: "create_task_bubble read_book = Inr ((18, 0, 0, 0), (19, 0, 0, 0))"
    by (simp add: create_task_bubble_def read_book_def strptime_defs)
  have led: "\<not> ledger_get read_book (strftime_Ymd tuesday_0915)"
    by (simp add: ledger_get_def read_book_def)
  note rec = applies_today_recurrence [OF rd]
  from rec [of monday_0915] ne mon have a1: "applies_today monday_0915 brush_teeth" by blast
  from rec [of tuesday_0915] ne tue have a2: "\<not> applies_today tuesday_0915 brush_teeth" by blast
  from rec [of tuesday_0915] a2 have none: "task_state tuesday_0915 brush_teeth = Inr None" by blast
  from a2 rb bubble led
  have pop: "populate_tasks_for_child tuesday_0915 [brush_teeth, read_book] = Inr ([read_book], [])"
    by simp
  from rec [of tuesday_0915] a2 pop have out: "brush_teeth \<notin> set [read_book]" by blast
  from rd ne mon tue a1 a2 none pop out show ?thesis by blast
qed

subsection \<open>Loading\<close>

text \<open>
  Claim C4, as the program does it. When the file does not exist, or
  \<^verbatim>\<open>json.load\<close> finds that its text is not JSON, \<^verbatim>\<open>load_data\<close> returns the
  fresh empty document and raises nothing; what \<^verbatim>\<open>json.load\<close> does return is
  returned as it is, with no check of its structure. The fresh empty document has the
  expected structure.
\<close>

theorem load_data_recovers:
  "(f = Missing \<or> f = OpenRaises FileNotFoundError \<or> f = LoadRaises JSONDecodeError \<longrightarrow>
      load_data f = Inr empty_document)
   \<and> (f = Loads v \<longrightarrow> load_data f = Inr v)
   \<and> expected_structure empty_document"
  by (auto simp: load_data_def except_clause_def expected_structure_def empty_document_def
        is_object_def)

theorem load_data_recovers_witness:
  "load_data (LoadRaises JSONDecodeError) = Inr empty_document
   \<and> load_data Missing = Inr empty_document
   \<and> load_data (Loads (JObject [])) = Inr (JObject [])"
  using load_data_recovers [of "LoadRaises JSONDecodeError"] load_data_recovers [of Missing]
    load_data_recovers [of "Loads (JObject [])" "JObject []"]
  by simp

text \<open>
  A file that holds the JSON text \<^verbatim>\<open>[]\<close> parses, but not as the expected structure;
  \<^verbatim>\<open>load_data\<close> returns the empty list, not the fresh empty document.
\<close>

theorem load_data_keeps_unexpected_structure:
  "\<not> expected_structure (JArray [])
   \<and> load_data (Loads (JArray [])) = Inr (JArray [])
   \<and> JArray [] \<noteq> empty_document"
  by (simp add: load_data_def expected_structure_def empty_document_def)

text \<open>A file that cannot be opened for lack of permission: the exception is not caught.\<close>

lemma load_data_unreadable: "load_data (OpenRaises PermissionError) = Inl PermissionError"
  by (simp add: load_data_def except_clause_def)

subsection \<open>Registration\<close>

lemma length_compress: "length (compress hs blk) = length hs"
  by (induction hs blk rule: compress.induct) (auto split: prod.splits)

lemma length_foldl_compress: "length (foldl compress hs blks) = length hs"
  by (induction blks arbitrary: hs) (simp_all add: length_compress)

lemma length_sha256: "length (sha256 m) = 8"
  by (simp add: sha256_def Let_def length_foldl_compress H256_def)

lemma length_hexdigest: "length (hexdigest ws) = 8 * length ws"
  by (induction ws) (simp_all add: hexdigest_def hex32_def)

lemma length_hash_pin: "length (hash_pin p) = 64"
  by (simp add: hash_pin_def length_hexdigest length_sha256)

lemma lower_Nil: "lower s = [] \<longleftrightarrow> s = []"
  by (simp add: lower_def)

lemma lower_example: "lower ''Sam@Example.com'' = ''sam@example.com''"
  by code_simp

lemma lower_a_b_com: "lower ''a@b.com'' = ''a@b.com''"
  by code_simp

lemma isdigit_123456: "isdigit ''123456''"
  by (simp add: isdigit_def isdigit_char_def)

text \<open>
  The digest against the interpreter: \<^verbatim>\<open>hashlib.sha256(b"abc").hexdigest()\<close>, and
  \<^verbatim>\<open>hash_pin\<close> of the empty string, of two PINs, and of the six superscript twos
  (twelve bytes in UTF-8).
\<close>

lemma sha256_abc:
  "hexdigest (sha256 [0x61, 0x62, 0x63])
     = ''ba7816bf8f01cfea414140de5dae2223b00361a396177a9cb410ff61f20015ad''"
  by code_simp

lemma hash_pin_empty:
  "hash_pin '''' = ''e3b0c44298fc1c149afbf4c8996fb92427ae41e4649b934ca495991b7852b855''"
  by code_simp

lemma hash_pin_123456:
  "hash_pin ''123456'' = ''8d969eef6ecad3c29a3a629280e686cf0c3f5d5a86aff3ca12020c923adc6c92''"
  by code_simp

lemma hash_pin_654321:
  "hash_pin ''654321'' = ''481f6cc0511143ccdd7e2d1b1b94faf0a700a8b49cd13922a70b5ae28acaa8c5''"
  by code_simp

lemma hash_pin_superscript:
  "hash_pin superscript_pin = ''173ba026a12e7402ae77bfe20c5cfd03577acbbed8d56778726053e5be91b27e''"
  by code_simp

text \<open>
  Claim C5, as the program does it. \<^verbatim>\<open>register\<close> fails, always with a message and
  never with an exception, exactly when the email is empty, the PIN is empty, the PIN is
  not six characters that \<^verbatim>\<open>str.isdigit\<close> accepts, or the lower-cased email is
  already a key of the store. On success the store maps the lower-cased email to the
  digest of the PIN, which is never the PIN itself, and to an empty list of children;
  every other user and the settings are unchanged.
\<close>

theorem register_validation:
  "((\<exists>msg. register email p d = Inl (ShowError msg)) \<longleftrightarrow>
      (email = [] \<or> p = [] \<or> \<not> (length p = 6 \<and> isdigit p) \<or> lower email \<in> dom (users d)))
   \<and> (\<forall>x. register email p d \<noteq> Inl (Raised x))
   \<and> (\<forall>d'. register email p d = Inr d' \<longrightarrow>
         users d' (lower email) = Some \<lparr>pin = hash_pin p, children = []\<rparr>
         \<and> hash_pin p \<noteq> p
         \<and> (\<forall>e. e \<noteq> lower email \<longrightarrow> users d' e = users d e)
         \<and> settings d' = settings d)"
proof -
  have neq: "length p = 6 \<Longrightarrow> hash_pin p \<noteq> p"
    using length_hash_pin [of p] by auto
  show ?thesis
    using neq by (auto simp: register_def Let_def lower_Nil)
qed

theorem register_validation_witness:
  "register ''Sam@Example.com'' ''123456'' fresh_document
     = Inr (fresh_document\<lparr>users := (users fresh_document)
              (''sam@example.com'' \<mapsto> \<lparr>pin = hash_pin ''123456'', children = []\<rparr>)\<rparr>)
   \<and> hash_pin ''123456'' \<noteq> ''123456''
   \<and> (\<exists>msg. register ''Sam@Example.com'' ''12345'' fresh_document = Inl (ShowError msg))"
proof -
  have ok: "register ''Sam@Example.com'' ''123456'' fresh_document
     = Inr (fresh_document\<lparr>users := (users fresh_document)
              (''sam@example.com'' \<mapsto> \<lparr>pin = hash_pin ''123456'', children = []\<rparr>)\<rparr>)"
    by (simp add: register_def lower_example isdigit_123456 fresh_document_def)
  from register_validation [of "''Sam@Example.com''" "''123456''" fresh_document] ok
  have ne: "hash_pin ''123456'' \<noteq> ''123456''" by blast
  from register_validation [of "''Sam@Example.com''" "''12345''" fresh_document]
  have short: "\<exists>msg. register ''Sam@Example.com'' ''12345'' fresh_document = Inl (ShowError msg)"
    by simp
  from ok ne short show ?thesis by blast
qed

text \<open>
  A PIN of six superscript twos (U+00B2) is six characters, none of them an ASCII digit,
  and \<^verbatim>\<open>str.isdigit\<close> accepts it: registration succeeds.
\<close>

theorem register_accepts_superscript_digits:
  "length superscript_pin = 6
   \<and> list_all re_digit superscript_pin = False
   \<and> register ''a@b.com'' superscript_pin fresh_document
     = Inr (fresh_document\<lparr>users := (users fresh_document)
              (''a@b.com'' \<mapsto> \<lparr>pin = hash_pin superscript_pin, children = []\<rparr>)\<rparr>)"
  by (simp add: register_def lower_a_b_com isdigit_def isdigit_char_def re_digit_def
        superscript_pin_def fresh_document_def)

subsection \<open>Login\<close>

text \<open>
  Claim C6, as the program does it. A successful registration followed by a login with
  the same email and PIN succeeds. A login with a PIN whose digest differs from the
  stored one fails. Login succeeds exactly when email and PIN are both non-empty, a user
  is stored under the lower-cased email, and the digest of the PIN is the stored digest.
  With both fields non-empty, an unknown account and a wrong PIN give one and the same
  message; an empty field gives a message of its own, before any lookup.
\<close>

theorem login_authenticates:
  "(\<forall>d'. register email p d = Inr d' \<longrightarrow>
      (\<exists>c. login email p \<lparr>data = d', current_user = cu\<rparr> = Inr c
          \<and> current_user c = Some (lower email)))
   \<and> (\<forall>u. users (data ctl) (lower email) = Some u \<and> hash_pin q \<noteq> pin u \<longrightarrow>
         (\<exists>msg. login email q ctl = Inl (ShowError msg)))
   \<and> ((\<exists>c. login email q ctl = Inr c) \<longleftrightarrow>
         email \<noteq> [] \<and> q \<noteq> []
         \<and> (\<exists>u. users (data ctl) (lower email) = Some u \<and> pin u = hash_pin q))
   \<and> (email \<noteq> [] \<and> q \<noteq> []
        \<and> \<not> (\<exists>u. users (data ctl) (lower email) = Some u \<and> pin u = hash_pin q) \<longrightarrow>
        login email q ctl = Inl (ShowError ''Invalid email or PIN.''))
   \<and> (email = [] \<or> q = [] \<longrightarrow>
        login email q ctl = Inl (ShowError ''Email and PIN cannot be empty.''))"
proof -
  have a: "\<forall>d'. register email p d = Inr d' \<longrightarrow>
      (\<exists>c. login email p \<lparr>data = d', current_user = cu\<rparr> = Inr c
          \<and> current_user c = Some (lower email))"
    by (auto simp: register_def login_def Let_def split: if_splits)
  have b: "\<forall>u. users (data ctl) (lower email) = Some u \<and> hash_pin q \<noteq> pin u \<longrightarrow>
         (\<exists>msg. login email q ctl = Inl (ShowError msg))"
    by (auto simp: login_def Let_def)
  have c: "(\<exists>c. login email q ctl = Inr c) \<longleftrightarrow>
         email \<noteq> [] \<and> q \<noteq> []
         \<and> (\<exists>u. users (data ctl) (lower email) = Some u \<and> pin u = hash_pin q)"
    by (auto simp: login_def Let_def lower_Nil split: option.splits if_splits)
  have d: "email \<noteq> [] \<and> q \<noteq> []
        \<and> \<not> (\<exists>u. users (data ctl) (lower email) = Some u \<and> pin u = hash_pin q) \<longrightarrow>
        login email q ctl = Inl (ShowError ''Invalid email or PIN.'')"
    by (auto simp: login_def Let_def lower_Nil split: option.splits)
  have e: "email = [] \<or> q = [] \<longrightarrow>
        login email q ctl = Inl (ShowError ''Email and PIN cannot be empty.'')"
    by (auto simp: login_def Let_def lower_Nil)
  from a b c d e show ?thesis by blast
qed

text \<open>
  Where the stored digest is that of the empty string, a user exists and the digest of
  the supplied (empty) PIN equals the stored one, and yet login fails.
\<close>

theorem empty_pin_is_refused_before_the_digest_is_compared:
  "users (data blank_digest_session) (lower ''a@b.com'')
     = Some \<lparr>pin = hash_pin '''', children = []\<rparr>
   \<and> login ''a@b.com'' '''' blank_digest_session
     = Inl (ShowError ''Email and PIN cannot be empty.'')"
  by (simp add: blank_digest_session_def lower_a_b_com hash_pin_empty login_def)

theorem login_authenticates_witness:
  "register ''Sam@Example.com'' ''123456'' fresh_document = Inr registered
   \<and> (\<exists>c. login ''Sam@Example.com'' ''123456'' \<lparr>data = registered, current_user = None\<rparr> = Inr c
         \<and> current_user c = Some ''sam@example.com'')
   \<and> users registered (lower ''Sam@Example.com'')
        = Some \<lparr>pin = hash_pin ''123456'', children = []\<rparr>
   \<and> hash_pin ''654321'' \<noteq> hash_pin ''123456''
   \<and> login ''Sam@Example.com'' ''654321'' \<lparr>data = registered, current_user = None\<rparr>
        = Inl (ShowError ''Invalid email or PIN.'')
   \<and> login ''a@b.com'' ''123456'' \<lparr>data = registered, current_user = None\<rparr>
        = Inl (ShowError ''Invalid email or PIN.'')"
proof -
  have reg: "register ''Sam@Example.com'' ''123456'' fresh_document = Inr registered"
    by (simp add: register_def lower_example isdigit_123456 fresh_document_def registered_def)
  have stored: "users registered (lower ''Sam@Example.com'')
        = Some \<lparr>pin = hash_pin ''123456'', children = []\<rparr>"
    by (simp add: registered_def lower_example)
  have differ: "hash_pin ''654321'' \<noteq> hash_pin ''123456''"
    by (simp add: hash_pin_123456 hash_pin_654321)
  have unknown: "users registered (lower ''a@b.com'') = None"
    by (simp add: registered_def lower_a_b_com fresh_document_def)
  note auth = login_authenticates [where email = "''Sam@Example.com''" and p = "''123456''"
      and d = fresh_document and cu = None
      and ctl = "\<lparr>data = registered, current_user = None\<rparr>" and q = "''654321''"]
  from auth reg have good:
    "\<exists>c. login ''Sam@Example.com'' ''123456'' \<lparr>data = registered, current_user = None\<rparr> = Inr c
         \<and> current_user c = Some ''sam@example.com''"
    by (simp add: lower_example)
  from auth stored differ have bad:
    "login ''Sam@Example.com'' ''654321'' \<lparr>data = registered, current_user = None\<rparr>
        = Inl (ShowError ''Invalid email or PIN.'')"
    by simp
  from login_authenticates [where email = "''a@b.com''" and q = "''123456''"
      and ctl = "\<lparr>data = registered, current_user = None\<rparr>"] unknown
  have nobody: "login ''a@b.com'' ''123456'' \<lparr>data = registered, current_user = None\<rparr>
        = Inl (ShowError ''Invalid email or PIN.'')"
    by simp
  from reg good stored differ bad nobody show ?thesis by blast
qed

subsection \<open>Adding and removing tasks\<close>

lemma length_filter_eq: "length (filter P xs) = length xs \<longleftrightarrow> (\<forall>x\<in>set xs. P x)"
proof (induction xs)
  case Nil
  then show ?case by simp
next
  case (Cons x xs)
  have "length (filter P xs) \<noteq> Suc (length xs)"
    using length_filter_le [of P xs] by linarith
  with Cons show ?case by auto
qed

lemma all_selected: "length (selected_days p) = 7 \<longleftrightarrow> (\<forall>d\<in>set popup_days. day_vars p d)"
proof -
  have "length popup_days = 7" by (simp add: popup_days_def)
  then show ?thesis
    using length_filter_eq [of "day_vars p" popup_days] by (simp add: selected_days_def)
qed

lemma none_selected: "selected_days p = [] \<longleftrightarrow> (\<forall>d\<in>set popup_days. \<not> day_vars p d)"
  by (simp add: selected_days_def filter_empty_conv)

lemma new_task_days:
  "days (new_task now p) = (if \<forall>d\<in>set popup_days. day_vars p d then [''all''] else selected_days p)"
  by (simp add: new_task_def all_selected)

lemma new_task_descriptor:
  "selected_days p \<noteq> [] \<Longrightarrow> recurrence_descriptor (days (new_task now p))"
  by (auto simp: new_task_def recurrence_descriptor_def selected_days_def)

lemma find_child_first:
  "\<forall>x\<in>set pre. name x \<noteq> nm \<Longrightarrow> name c = nm \<Longrightarrow>
     find_child nm (pre @ c # post) = Some (length pre)"
  by (induction pre) simp_all

lemma session_lookup: "lookup_user session = Inr (''a@b.com'', parent)"
  by (simp add: lookup_user_def session_def)

lemma sam_first: "find_child ''Sam'' (children parent) = Some 1"
  by (simp add: parent_def sam_def alex_def)

lemma brush_form_filled:
  "fields_filled brush_form" "selected_days brush_form = [''Monday'']"
  "child_name brush_form = ''Sam''"
  by (simp_all add: fields_filled_def brush_form_def selected_days_def popup_days_def)

lemma wash_form_filled:
  "fields_filled wash_form" "selected_days wash_form = popup_days"
  "child_name wash_form = ''Sam''"
  by (simp_all add: fields_filled_def wash_form_def selected_days_def popup_days_def)

text \<open>
  Claim C8. \<^verbatim>\<open>save\<close> shows an error and stores nothing when the text or one of the
  four time fields is empty, and when no day is selected. Otherwise, for a logged-in user
  with a child of the popup's name, it appends the new task to that child; the task's
  days are the all-days sentinel exactly when all seven weekdays were selected, and the
  selected weekdays, in the order of the popup, otherwise.
\<close>

theorem save_validates_and_normalizes:
  "(\<not> fields_filled p \<longrightarrow> save now ctl p = Inl (ShowError ''All fields must be filled.''))
   \<and> (fields_filled p \<and> (\<forall>d\<in>set popup_days. \<not> day_vars p d) \<longrightarrow>
        save now ctl p = Inl (ShowError ''Please select at least one day.''))
   \<and> (fields_filled p \<and> (\<exists>d\<in>set popup_days. day_vars p d)
        \<and> lookup_user ctl = Inr (u, ud) \<and> find_child (child_name p) (children ud) = Some i \<longrightarrow>
        (\<exists>d'. save now ctl p = Inr d'
           \<and> users d' u = Some (ud\<lparr>children := (children ud)
                 [i := (children ud ! i)\<lparr>tasks := tasks (children ud ! i) @ [new_task now p]\<rparr>]\<rparr>)))
   \<and> task_text (new_task now p) = task_text_entry p
   \<and> (days (new_task now p) = [''all''] \<longleftrightarrow> (\<forall>d\<in>set popup_days. day_vars p d))
   \<and> (\<not> (\<forall>d\<in>set popup_days. day_vars p d) \<longrightarrow>
         days (new_task now p) = filter (day_vars p) popup_days)"
proof -
  have no_all: "selected_days p \<noteq> [''all'']"
  proof
    assume "selected_days p = [''all'']"
    then have "''all'' \<in> set (filter (day_vars p) popup_days)"
      by (simp add: selected_days_def)
    then have "''all'' \<in> set popup_days" by simp
    then show False by (simp add: popup_days_def)
  qed
  have d1: "days (new_task now p) = [''all''] \<longleftrightarrow> (\<forall>d\<in>set popup_days. day_vars p d)"
    using no_all by (simp add: new_task_days)
  have d2: "\<not> (\<forall>d\<in>set popup_days. day_vars p d) \<longrightarrow>
              days (new_task now p) = filter (day_vars p) popup_days"
    by (simp add: new_task_days selected_days_def)
  have sel: "(\<exists>d\<in>set popup_days. day_vars p d) \<longleftrightarrow> selected_days p \<noteq> []"
    by (simp add: none_selected)
  have e1: "\<not> fields_filled p \<longrightarrow> save now ctl p = Inl (ShowError ''All fields must be filled.'')"
    by (auto simp: save_def fields_filled_def)
  have e2: "fields_filled p \<and> (\<forall>d\<in>set popup_days. \<not> day_vars p d) \<longrightarrow>
        save now ctl p = Inl (ShowError ''Please select at least one day.'')"
    using none_selected [of p] by (auto simp: save_def fields_filled_def)
  have ok: "fields_filled p \<and> (\<exists>d\<in>set popup_days. day_vars p d)
        \<and> lookup_user ctl = Inr (u, ud) \<and> find_child (child_name p) (children ud) = Some i \<longrightarrow>
        (\<exists>d'. save now ctl p = Inr d'
           \<and> users d' u = Some (ud\<lparr>children := (children ud)
                 [i := (children ud ! i)\<lparr>tasks := tasks (children ud ! i) @ [new_task now p]\<rparr>]\<rparr>))"
    unfolding sel by (auto simp: save_def fields_filled_def set_children_def Let_def)
  have tx: "task_text (new_task now p) = task_text_entry p"
    by (simp add: new_task_def)
  from e1 e2 ok d1 d2 tx show ?thesis by blast
qed

theorem save_validates_and_normalizes_witness:
  "fields_filled brush_form \<and> day_vars brush_form ''Monday''
   \<and> lookup_user session = Inr (''a@b.com'', parent)
   \<and> find_child (child_name brush_form) (children parent) = Some 1
   \<and> (\<exists>d'. save monday_0915 session brush_form = Inr d'
         \<and> users d' ''a@b.com''
            = Some (parent\<lparr>children :=
                 [alex, sam\<lparr>tasks := [brush_teeth, new_task monday_0915 brush_form]\<rparr>, sam_again]\<rparr>))
   \<and> days (new_task monday_0915 brush_form) = [''Monday'']
   \<and> days (new_task monday_0915 wash_form) = [''all'']
   \<and> save monday_0915 session (brush_form\<lparr>end_min := []\<rparr>)
        = Inl (ShowError ''All fields must be filled.'')
   \<and> save monday_0915 session (brush_form\<lparr>day_vars := (\<lambda>d. False)\<rparr>)
        = Inl (ShowError ''Please select at least one day.'')"
proof -
  have dv: "day_vars brush_form ''Monday''" "\<exists>d\<in>set popup_days. day_vars brush_form d"
    "\<not> (\<forall>d\<in>set popup_days. day_vars brush_form d)"
    by (simp_all add: brush_form_def popup_days_def)
  have fc: "find_child (child_name brush_form) (children parent) = Some 1"
    by (simp add: brush_form_filled sam_first)
  note brush = save_validates_and_normalizes
    [where p = brush_form and now = monday_0915 and ctl = session and u = "''a@b.com''"
       and ud = parent and i = 1]
  from brush brush_form_filled(1) dv session_lookup fc
  have stored: "\<exists>d'. save monday_0915 session brush_form = Inr d'
         \<and> users d' ''a@b.com''
            = Some (parent\<lparr>children :=
                 [alex, sam\<lparr>tasks := [brush_teeth, new_task monday_0915 brush_form]\<rparr>, sam_again]\<rparr>)"
    by (simp add: parent_def sam_def)
  from brush dv have monday: "days (new_task monday_0915 brush_form) = [''Monday'']"
    by (simp add: brush_form_def popup_days_def)
  from save_validates_and_normalizes [where p = wash_form and now = monday_0915]
  have daily: "days (new_task monday_0915 wash_form) = [''all'']"
    by (simp add: wash_form_def)
  from save_validates_and_normalizes
    [where p = "brush_form\<lparr>end_min := []\<rparr>" and now = monday_0915 and ctl = session]
  have empty_field: "save monday_0915 session (brush_form\<lparr>end_min := []\<rparr>)
        = Inl (ShowError ''All fields must be filled.'')"
    by (simp add: fields_filled_def)
  from save_validates_and_normalizes
    [where p = "brush_form\<lparr>day_vars := (\<lambda>d. False)\<rparr>" and now = monday_0915 and ctl = session]
  have no_day: "save monday_0915 session (brush_form\<lparr>day_vars := (\<lambda>d. False)\<rparr>)
        = Inl (ShowError ''Please select at least one day.'')"
    by (simp add: fields_filled_def brush_form_def)
  from brush_form_filled(1) dv(1) session_lookup fc stored monday daily empty_field no_day
  show ?thesis by blast
qed

text \<open>
  Claim C10. Both commands find the child by name: when the user's children are
  \<open>pre @ c # post\<close>, where \<open>c\<close> is the first child of the given name, a valid
  Add Task popup for that name appends its task to \<open>c\<close>, and removing a task under
  that name removes its first occurrence from the tasks of \<open>c\<close>, or changes nothing
  when \<open>c\<close> does not have it. The document stored afterwards is written out: the
  user's children are \<open>pre\<close>, the changed \<open>c\<close> and \<open>post\<close>, so the children
  after \<open>c\<close>, whatever their names, are as they were, and so are the other users
  and the settings.
\<close>

theorem commands_use_first_child_of_that_name:
  assumes "lookup_user ctl = Inr (u, ud)"
    and "children ud = pre @ c # post"
    and "\<forall>x\<in>set pre. name x \<noteq> nm"
    and "name c = nm"
  shows "(fields_filled p \<and> selected_days p \<noteq> [] \<and> child_name p = nm \<longrightarrow>
            save now ctl p
              = Inr ((data ctl)\<lparr>users := (users (data ctl))
                  (u \<mapsto> ud\<lparr>children := pre @ c\<lparr>tasks := tasks c @ [new_task now p]\<rparr> # post\<rparr>)\<rparr>))
    \<and> (t \<in> set (tasks c) \<longrightarrow>
          remove_task ctl nm t
            = Inr ((data ctl)\<lparr>users := (users (data ctl))
                (u \<mapsto> ud\<lparr>children := pre @ c\<lparr>tasks := remove1 t (tasks c)\<rparr> # post\<rparr>)\<rparr>))
    \<and> (t \<notin> set (tasks c) \<longrightarrow> remove_task ctl nm t = Inr (data ctl))"
proof -
  from assms(3,4) have f: "find_child nm (pre @ c # post) = Some (length pre)"
    by (rule find_child_first)
  show ?thesis
    using assms(1,2) f
    by (auto simp: save_def remove_task_def fields_filled_def set_children_def Let_def)
qed

theorem commands_use_first_child_of_that_name_witness:
  "lookup_user session = Inr (''a@b.com'', parent)
   \<and> children parent = [alex] @ sam # [sam_again]
   \<and> name alex \<noteq> ''Sam'' \<and> name sam = ''Sam'' \<and> name sam_again = ''Sam''
   \<and> save monday_0915 session brush_form
       = Inr ((data session)\<lparr>users := (users (data session))
           (''a@b.com'' \<mapsto> parent\<lparr>children :=
              [alex, sam\<lparr>tasks := [brush_teeth, new_task monday_0915 brush_form]\<rparr>, sam_again]\<rparr>)\<rparr>)
   \<and> brush_teeth \<in> set (tasks sam_again)
   \<and> remove_task session ''Sam'' brush_teeth
       = Inr ((data session)\<lparr>users := (users (data session))
           (''a@b.com'' \<mapsto> parent\<lparr>children := [alex, sam\<lparr>tasks := []\<rparr>, sam_again]\<rparr>)\<rparr>)
   \<and> read_book \<in> set (tasks sam_again)
   \<and> remove_task session ''Sam'' read_book = Inr (data session)"
proof -
  have ch: "children parent = [alex] @ sam # [sam_again]"
    by (simp add: parent_def)
  have pre: "\<forall>x\<in>set [alex]. name x \<noteq> ''Sam''"
    by (simp add: alex_def)
  have nm: "name sam = ''Sam''" "name sam_again = ''Sam''"
    by (simp_all add: sam_def sam_again_def)
  have mem: "brush_teeth \<in> set (tasks sam)" "read_book \<notin> set (tasks sam)"
    "brush_teeth \<in> set (tasks sam_again)" "read_book \<in> set (tasks sam_again)"
    by (simp_all add: sam_def sam_again_def brush_teeth_def read_book_def)
  note first = commands_use_first_child_of_that_name [OF session_lookup ch pre nm(1)]
  from first [of brush_form monday_0915] brush_form_filled
  have added: "save monday_0915 session brush_form
       = Inr ((data session)\<lparr>users := (users (data session))
           (''a@b.com'' \<mapsto> parent\<lparr>children :=
              [alex, sam\<lparr>tasks := [brush_teeth, new_task monday_0915 brush_form]\<rparr>, sam_again]\<rparr>)\<rparr>)"
    by (simp add: sam_def)
  from first [of _ _ brush_teeth] mem(1)
  have removed: "remove_task session ''Sam'' brush_teeth
       = Inr ((data session)\<lparr>users := (users (data session))
           (''a@b.com'' \<mapsto> parent\<lparr>children := [alex, sam\<lparr>tasks := []\<rparr>, sam_again]\<rparr>)\<rparr>)"
    by (simp add: sam_def)
  from first [of _ _ read_book] mem(2)
  have kept: "remove_task session ''Sam'' read_book = Inr (data session)"
    by simp
  from session_lookup ch pre nm mem added removed kept show ?thesis by simp
qed

subsection \<open>Task ids\<close>

lemma str_1753089300: "str_int 1753089300 = ''1753089300''"
  by (simp add: str_int_def str_nat.simps digit_char_def)

lemma py_int_early: "py_int (timestamp monday_0915_early) = 1753089300"
  by (simp add: py_int_def monday_0915_early_def)

lemma py_int_late: "py_int (timestamp monday_0915_late) = 1753089300"
  by (simp add: py_int_def monday_0915_late_def)

lemma new_task_id_early: "task_id (new_task monday_0915_early p) = ''task_1753089300''"
  by (simp add: new_task_def py_int_early str_1753089300)

lemma new_task_id_late: "task_id (new_task monday_0915_late p) = ''task_1753089300''"
  by (simp add: new_task_def py_int_late str_1753089300)

text \<open>
  Rendering an integer in decimal is injective, so two new tasks get the same id exactly
  when their clock readings agree in whole seconds.
\<close>

lemma digit_char_in: "n < 10 \<Longrightarrow> digit_char n \<in> set ''0123456789''"
  unfolding digit_char_def by (rule nth_mem) simp

lemma digit_char_inj:
  assumes "a < 10" and "b < 10" and "digit_char a = digit_char b"
  shows "a = b"
proof -
  have d: "distinct ''0123456789''" by simp
  have l: "length ''0123456789'' = 10" by simp
  from assms show ?thesis
    unfolding digit_char_def using nth_eq_iff_index_eq [OF d, of a b] l by simp
qed

lemma str_nat_not_Nil: "str_nat n \<noteq> []"
  by (subst str_nat.simps) simp

lemma str_nat_digits: "set (str_nat n) \<subseteq> set ''0123456789''"
proof (induction n rule: str_nat.induct)
  case (1 n)
  show ?case
  proof (cases "n < 10")
    case True
    then show ?thesis
      using digit_char_in [of n] by (subst str_nat.simps) simp
  next
    case False
    have "n mod 10 < 10" by simp
    with False 1 show ?thesis
      using digit_char_in [of "n mod 10"] by (subst str_nat.simps) simp
  qed
qed

lemma str_nat_inj: "str_nat a = str_nat b \<Longrightarrow> a = b"
proof (induction a arbitrary: b rule: str_nat.induct)
  case (1 a)
  have ea: "str_nat a = (if a < 10 then [digit_char a] else str_nat (a div 10) @ [digit_char (a mod 10)])"
    by (rule str_nat.simps)
  have eb: "str_nat b = (if b < 10 then [digit_char b] else str_nat (b div 10) @ [digit_char (b mod 10)])"
    by (rule str_nat.simps)
  show ?case
  proof (cases "a < 10")
    case True
    note a_small = True
    show ?thesis
    proof (cases "b < 10")
      case True
      with a_small ea eb "1.prems" show ?thesis
        by (simp add: digit_char_inj)
    next
      case False
      with a_small ea eb "1.prems" have "str_nat (b div 10) = []" by simp
      with str_nat_not_Nil show ?thesis by blast
    qed
  next
    case False
    note a_big = False
    show ?thesis
    proof (cases "b < 10")
      case True
      with a_big ea eb "1.prems" have "str_nat (a div 10) = []" by simp
      with str_nat_not_Nil show ?thesis by blast
    next
      case False
      with a_big ea eb "1.prems"
      have pre: "str_nat (a div 10) = str_nat (b div 10)"
        and dig: "digit_char (a mod 10) = digit_char (b mod 10)"
        by simp_all
      from "1.IH" [OF a_big pre] have q: "a div 10 = b div 10" .
      have "a mod 10 < 10" "b mod 10 < 10" by simp_all
      then have r: "a mod 10 = b mod 10" using dig by (rule digit_char_inj)
      from q r show ?thesis
        by (metis div_mult_mod_eq)
    qed
  qed
qed

lemma str_int_inj: "str_int i = str_int j \<Longrightarrow> i = j"
proof -
  assume eq: "str_int i = str_int j"
  have nodash: "\<And>n. CHR ''-'' \<notin> set (str_nat n)"
    using str_nat_digits by fastforce
  have hd_in: "\<And>n. hd (str_nat n) \<in> set (str_nat n)"
    using str_nat_not_Nil by simp
  have nd: "\<And>n m. CHR ''-'' # str_nat n \<noteq> str_nat m"
  proof
    fix n m assume "CHR ''-'' # str_nat n = str_nat m"
    then have "CHR ''-'' \<in> set (str_nat m)" by (metis list.set_intros(1))
    with nodash show False by blast
  qed
  show "i = j"
  proof (cases "i < 0")
    case True
    note i_neg = True
    show ?thesis
    proof (cases "j < 0")
      case True
      with i_neg eq have "str_nat (nat (- i)) = str_nat (nat (- j))"
        by (simp add: str_int_def)
      then have "nat (- i) = nat (- j)" by (rule str_nat_inj)
      with i_neg True show ?thesis by linarith
    next
      case False
      with i_neg eq nd show ?thesis by (simp add: str_int_def)
    qed
  next
    case False
    note i_pos = False
    show ?thesis
    proof (cases "j < 0")
      case True
      with i_pos eq nd [of "nat (- j)" "nat i"] show ?thesis by (simp add: str_int_def)
    next
      case False
      with i_pos eq have "str_nat (nat i) = str_nat (nat j)"
        by (simp add: str_int_def)
      then have "nat i = nat j" by (rule str_nat_inj)
      with i_pos False show ?thesis by linarith
    qed
  qed
qed

lemma new_task_id_eq_iff:
  "task_id (new_task now1 p1) = task_id (new_task now2 p2)
     \<longleftrightarrow> py_int (timestamp now1) = py_int (timestamp now2)"
  by (auto simp: new_task_def dest: str_int_inj)

text \<open>
  Claim C7 does not hold of the program. The id of a new task is the reading of the clock
  cut to whole seconds, so two popups saved for one child within the same second store
  two tasks with the same id: after the two saves below, at 09:15:00.2 and 09:15:00.9,
  the second child holds its old task and two tasks called \<^verbatim>\<open>task_1753089300\<close>.
\<close>

theorem tasks_saved_in_one_second_share_an_id:
  "timestamp monday_0915_early < timestamp monday_0915_late
   \<and> task_ids (add_tasks session [(monday_0915_early, brush_form), (monday_0915_late, wash_form)])
        ''a@b.com''
      = [[], [''task_1753000000'', ''task_1753089300'', ''task_1753089300''],
         [''task_1753000002'', ''task_1753000000'']]"
proof -
  have lt: "timestamp monday_0915_early < timestamp monday_0915_late"
    by (simp add: monday_0915_early_def monday_0915_late_def)
  define sam1 where "sam1 = sam\<lparr>tasks := tasks sam @ [new_task monday_0915_early brush_form]\<rparr>"
  define parent1 where "parent1 = parent\<lparr>children := [alex, sam1, sam_again]\<rparr>"
  define session1 where
    "session1 = session\<lparr>data := set_children session ''a@b.com'' parent [alex, sam1, sam_again]\<rparr>"
  have s1: "save monday_0915_early session brush_form
      = Inr (set_children session ''a@b.com'' parent [alex, sam1, sam_again])"
    using brush_form_filled session_lookup sam_first
    by (simp add: save_def fields_filled_def parent_def sam1_def)
  have l1: "lookup_user session1 = Inr (''a@b.com'', parent1)"
    by (simp add: lookup_user_def session1_def session_def set_children_def parent1_def)
  have c1: "find_child ''Sam'' (children parent1) = Some 1"
    by (simp add: parent1_def sam1_def sam_def alex_def)
  have s2: "save monday_0915_late session1 wash_form
      = Inr (set_children session1 ''a@b.com'' parent1
               [alex, sam1\<lparr>tasks := tasks sam1 @ [new_task monday_0915_late wash_form]\<rparr>, sam_again])"
    using wash_form_filled l1 c1
    by (simp add: save_def fields_filled_def parent1_def popup_days_def)
  have a1: "add_tasks session [(monday_0915_early, brush_form), (monday_0915_late, wash_form)]
      = add_tasks session1 [(monday_0915_late, wash_form)]"
    by (simp only: add_tasks.simps s1 sum.case session1_def)
  have a2: "add_tasks session1 [(monday_0915_late, wash_form)]
      = Inr (session1\<lparr>data := set_children session1 ''a@b.com'' parent1
               [alex, sam1\<lparr>tasks := tasks sam1 @ [new_task monday_0915_late wash_form]\<rparr>, sam_again]\<rparr>)"
    by (simp only: add_tasks.simps s2 sum.case)
  have "task_ids (add_tasks session [(monday_0915_early, brush_form), (monday_0915_late, wash_form)])
        ''a@b.com''
      = [map task_id (tasks alex), map task_id (tasks sam1 @ [new_task monday_0915_late wash_form]),
         map task_id (tasks sam_again)]"
    unfolding a1 a2 by (simp add: task_ids_def set_children_def)
  also have "\<dots> = [[], [''task_1753000000'', ''task_1753089300'', ''task_1753089300''],
         [''task_1753000002'', ''task_1753000000'']]"
    by (simp add: sam1_def sam_def sam_again_def alex_def new_task_id_early new_task_id_late
          brush_teeth_def read_book_def)
  finally show ?thesis using lt by simp
qed

end
